theory Spec2Isabelle
  imports Complex_Main "HOL-Library.Word" "HOL-Library.Sublist" "HOL-Library.Multiset"
    "HOL-Library.List_Lexorder" "HOL-Library.Char_ord"
begin

unbundle bit_operations_syntax

section \<open>The territory map of map.js\<close>

text \<open>
  A shallow embedding of the pure parts of the class \<open>TerritoryMap\<close> (src/map.js):
  the seeded jitter, the coordinate resolution at the head of the marker loop of
  \<open>updateMap\<close>, the filters, the trend buckets and the sparkline.

  Conventions of the embedding.
  \<^item> A JavaScript string is a \<open>string\<close> whose characters are its code units; the
    model covers the code units 0 to 255 (Latin-1), where lower-casing and the white
    space class of regular expressions are the ones written out below.
  \<^item> A JavaScript Number is a \<open>jsnum\<close>: a finite value, plus or minus infinity, or
    NaN. Finite values are exact reals: the rounding of IEEE-754 doubles and the sign
    of zero are not modelled. The integer arithmetic of the hash is exact in the source
    as well (all its intermediate values are integers below \<open>2^53\<close>) and is modelled
    bit for bit.
  \<^item> The DOM, the Leaflet map and the canvas are outside the model; what the code
    reads from them is an argument, what it draws is a returned list of operations.
\<close>

subsection \<open>Strings\<close>

definition charCodeAt :: "char \<Rightarrow> nat" where
  "charCodeAt c = of_char c"

text \<open>White space of \<open>String.prototype.trim\<close> and of the class \<open>\s\<close>, below U+0100:
  tab, line feed, vertical tab, form feed, carriage return, space, no-break space.\<close>

definition is_js_space :: "char \<Rightarrow> bool" where
  "is_js_space c = (charCodeAt c \<in> {9, 10, 11, 12, 13, 32, 160})"

text \<open>\<open>toLowerCase\<close> below U+0100: A to Z, and U+00C0 to U+00DE except the
  multiplication sign U+00D7, move up by 32.\<close>

definition lower_char :: "char \<Rightarrow> char" where
  "lower_char c =
     (let n = charCodeAt c
      in if (65 \<le> n \<and> n \<le> 90) \<or> (192 \<le> n \<and> n \<le> 222 \<and> n \<noteq> 215)
         then char_of (n + 32) else c)"

definition toLowerCase :: "string \<Rightarrow> string" where
  "toLowerCase s = map lower_char s"

definition js_trim :: "string \<Rightarrow> string" where
  "js_trim s = rev (dropWhile is_js_space (rev (dropWhile is_js_space s)))"

text \<open>\<open>hay.includes(needle)\<close>: the needle starts at some position of the hay.\<close>

fun js_includes :: "string \<Rightarrow> string \<Rightarrow> bool" where
  "js_includes [] needle = (needle = [])"
| "js_includes (c # cs) needle = (prefix needle (c # cs) \<or> js_includes cs needle)"

text \<open>\<open>s.replace(/\s+/g, ' ')\<close>: every maximal run of white space becomes one space.\<close>

function collapse_spaces :: "string \<Rightarrow> string" where
  "collapse_spaces [] = []"
| "collapse_spaces (c # cs) =
     (if is_js_space c then CHR '' '' # collapse_spaces (dropWhile is_js_space cs)
      else c # collapse_spaces cs)"
  by pat_completeness auto
termination
  by (relation "measure length") (auto simp: le_imp_less_Suc length_dropWhile_le)

text \<open>The arrow function \<open>norm\<close> of \<open>loadData\<close> (lines 45-49) and, again, of
  \<open>updateMap\<close> (lines 308-312), applied to a string:
  \<open>toLowerCase().replace(/[.,]/g, '').replace(/\s+/g, ' ').trim()\<close>.\<close>

definition norm_key :: "string \<Rightarrow> string" where
  "norm_key s =
     js_trim (collapse_spaces
       (filter (\<lambda>c. c \<noteq> CHR ''.'' \<and> c \<noteq> CHR '','') (toLowerCase s)))"

subsection \<open>Numbers\<close>

datatype jsnum = Fin real | PInf | NInf | NaN

fun js_sign :: "jsnum \<Rightarrow> real" where
  "js_sign (Fin a) = sgn a"
| "js_sign PInf = 1"
| "js_sign NInf = - 1"
| "js_sign NaN = 0"

fun js_neg :: "jsnum \<Rightarrow> jsnum" where
  "js_neg (Fin a) = Fin (- a)"
| "js_neg PInf = NInf"
| "js_neg NInf = PInf"
| "js_neg NaN = NaN"

fun js_add :: "jsnum \<Rightarrow> jsnum \<Rightarrow> jsnum" where
  "js_add NaN y = NaN"
| "js_add x NaN = NaN"
| "js_add (Fin a) (Fin b) = Fin (a + b)"
| "js_add (Fin a) y = y"
| "js_add x (Fin b) = x"
| "js_add PInf PInf = PInf"
| "js_add NInf NInf = NInf"
| "js_add PInf NInf = NaN"
| "js_add NInf PInf = NaN"

definition js_sub :: "jsnum \<Rightarrow> jsnum \<Rightarrow> jsnum" where
  "js_sub x y = js_add x (js_neg y)"

text \<open>A product with an infinite factor is infinite with the product of the signs, and
  NaN when the other factor is zero.\<close>

fun js_mul :: "jsnum \<Rightarrow> jsnum \<Rightarrow> jsnum" where
  "js_mul NaN y = NaN"
| "js_mul x NaN = NaN"
| "js_mul (Fin a) (Fin b) = Fin (a * b)"
| "js_mul x y =
     (let s = js_sign x * js_sign y
      in if 0 < s then PInf else if s < 0 then NInf else NaN)"

text \<open>A quotient: the model has one zero, the positive one, so a finite non-zero value
  over zero is the infinity of the dividend's sign.\<close>

fun js_div :: "jsnum \<Rightarrow> jsnum \<Rightarrow> jsnum" where
  "js_div NaN y = NaN"
| "js_div x NaN = NaN"
| "js_div (Fin a) (Fin b) =
     (if b \<noteq> 0 then Fin (a / b)
      else if 0 < a then PInf else if a < 0 then NInf else NaN)"
| "js_div (Fin a) y = Fin 0"
| "js_div x (Fin b) =
     (let s = js_sign x * (if b < 0 then - 1 else 1)
      in if 0 < s then PInf else NInf)"
| "js_div x y = NaN"

fun js_less :: "jsnum \<Rightarrow> jsnum \<Rightarrow> bool" where
  "js_less NaN y = False"
| "js_less x NaN = False"
| "js_less (Fin a) (Fin b) = (a < b)"
| "js_less x PInf = (x \<noteq> PInf)"
| "js_less NInf y = (y \<noteq> NInf)"
| "js_less x y = False"

definition js_ge :: "jsnum \<Rightarrow> jsnum \<Rightarrow> bool" where
  "js_ge x y = (x \<noteq> NaN \<and> y \<noteq> NaN \<and> \<not> js_less x y)"

definition js_isNaN :: "jsnum \<Rightarrow> bool" where
  "js_isNaN x = (x = NaN)"

subsection \<open>The seeded generator\<close>

text \<open>
  The bitwise operators of JavaScript work on the 32-bit integer of their operands and
  give a signed 32-bit result; \<open>+\<close> on Numbers that are integers of this size is exact.
  \<open>h ^= c\<close>, \<open>h << k\<close> and \<open>h >>> 0\<close>:
\<close>

definition js_xor :: "int \<Rightarrow> int \<Rightarrow> int" where
  "js_xor a b = sint ((word_of_int a :: 32 word) XOR word_of_int b)"

definition js_shl :: "int \<Rightarrow> nat \<Rightarrow> int" where
  "js_shl a k = sint (push_bit (k mod 32) (word_of_int a :: 32 word))"

definition ToUint32 :: "int \<Rightarrow> int" where
  "ToUint32 x = uint (word_of_int x :: 32 word)"

text \<open>One round of the loop of \<open>seededRandom\<close> (lines 192-193).\<close>

definition hash_step :: "int \<Rightarrow> char \<Rightarrow> int" where
  "hash_step h c =
     (let h1 = js_xor h (int (charCodeAt c))
      in h1 + (js_shl h1 1 + js_shl h1 4 + js_shl h1 7 + js_shl h1 8 + js_shl h1 24))"

definition hash_loop :: "string \<Rightarrow> int" where
  "hash_loop str = fold (\<lambda>c h. hash_step h c) str (ToUint32 2166136261)"

definition seededRandom :: "string \<Rightarrow> real" where
  "seededRandom seed = real_of_int (ToUint32 (hash_loop seed)) / 4294967296"

text \<open>\<open>getStableJitter(seed, scale)\<close> (lines 180-185); the unused local \<open>half\<close> is
  left out.\<close>

definition getStableJitter :: "string \<Rightarrow> jsnum \<Rightarrow> jsnum \<times> jsnum" where
  "getStableJitter seed scale =
     (let r1 = seededRandom (seed @ '':lat'');
          r2 = seededRandom (seed @ '':lng'')
      in (js_mul (js_sub (Fin r1) (Fin 0.5)) scale,
          js_mul (js_sub (Fin r2) (Fin 0.5)) scale))"

text \<open>The hash as section 4.1 of the specification describes it: FNV-1a on 32-bit
  words, the multiplication by the FNV prime written as shifts and adds in the source.\<close>

definition fnv_step :: "32 word \<Rightarrow> char \<Rightarrow> 32 word" where
  "fnv_step w c = (w XOR of_char c) * 16777619"

definition fnv_hash :: "string \<Rightarrow> 32 word" where
  "fnv_hash str = fold (\<lambda>c w. fnv_step w c) str 2166136261"

subsection \<open>Values of the data files\<close>

text \<open>
  The fields of the two JSON documents that the code converts itself hold a
  \<open>jsval\<close>: a missing field (\<open>undefined\<close>), \<open>null\<close>, a boolean, a Number or a
  string; arrays and objects in these places are outside the model.
\<close>

datatype jsval = JUndefined | JNull | JBool bool | JNum jsnum | JStr string

text \<open>\<open>v == null\<close>.\<close>

definition nullish :: "jsval \<Rightarrow> bool" where
  "nullish v = (v = JUndefined \<or> v = JNull)"

definition num_finite :: "jsnum \<Rightarrow> bool" where
  "num_finite x = (case x of Fin r \<Rightarrow> True | _ \<Rightarrow> False)"

subsubsection \<open>Numeric strings\<close>

text \<open>
  The grammar \<open>StringNumericLiteral\<close> of ECMAScript, which \<open>Number(s)\<close> and the global
  \<open>isFinite\<close> apply to a whole string and \<open>parseFloat\<close> to its longest prefix. The
  value of a literal is taken exactly; a literal of magnitude \<open>2^1024 - 2^970\<close> or more
  is infinite, as it is after rounding to a double.
\<close>

definition digit_of :: "char \<Rightarrow> nat option" where
  "digit_of c =
     (let n = charCodeAt c
      in if 48 \<le> n \<and> n \<le> 57 then Some (n - 48)
         else if 97 \<le> n \<and> n \<le> 102 then Some (n - 87)
         else if 65 \<le> n \<and> n \<le> 70 then Some (n - 55)
         else None)"

definition is_radix_digit :: "nat \<Rightarrow> char \<Rightarrow> bool" where
  "is_radix_digit radix c = (case digit_of c of Some d \<Rightarrow> d < radix | None \<Rightarrow> False)"

definition radix_value :: "nat \<Rightarrow> string \<Rightarrow> nat" where
  "radix_value radix ds =
     foldl (\<lambda>n c. radix * n + (case digit_of c of Some d \<Rightarrow> d | None \<Rightarrow> 0)) 0 ds"

definition is_digit :: "char \<Rightarrow> bool" where
  "is_digit c = is_radix_digit 10 c"

definition take_sign :: "string \<Rightarrow> bool \<times> string" where
  "take_sign s =
     (case s of
        [] \<Rightarrow> (False, s)
      | c # r \<Rightarrow> if c = CHR ''-'' then (True, r) else if c = CHR ''+'' then (False, r)
                 else (False, s))"

text \<open>An optional \<open>ExponentPart\<close>: its value and the rest, or 0 and the whole string
  when no exponent stands there.\<close>

definition parse_exponent :: "string \<Rightarrow> int \<times> string" where
  "parse_exponent s =
     (case s of
        [] \<Rightarrow> (0, s)
      | e # r \<Rightarrow>
          if e = CHR ''e'' \<or> e = CHR ''E'' then
            (let (neg, r1) = take_sign r; ds = takeWhile is_digit r1
             in if ds = [] then (0, s)
                else ((if neg then - int (radix_value 10 ds) else int (radix_value 10 ds)),
                      dropWhile is_digit r1))
          else (0, s))"

definition pow10 :: "int \<Rightarrow> real" where
  "pow10 e = (if 0 \<le> e then 10 ^ nat e else 1 / 10 ^ nat (- e))"

text \<open>The longest prefix that is a \<open>StrUnsignedDecimalLiteral\<close> other than
  \<open>Infinity\<close>: digits, an optional point and digits, an optional exponent; at least
  one digit before the exponent.\<close>

definition parse_unsigned :: "string \<Rightarrow> (real \<times> string) option" where
  "parse_unsigned s =
     (let ip = takeWhile is_digit s; r1 = dropWhile is_digit s;
          (fp, r2) = (case r1 of
                        [] \<Rightarrow> ([], r1)
                      | c # r \<Rightarrow> if c = CHR ''.''
                                 then (takeWhile is_digit r, dropWhile is_digit r)
                                 else ([], r1))
      in if ip = [] \<and> fp = [] then None
         else (let (ex, r3) = parse_exponent r2
               in Some (real (radix_value 10 (ip @ fp)) / 10 ^ length fp * pow10 ex, r3)))"

definition to_number :: "real \<Rightarrow> jsnum" where
  "to_number v =
     (if 2 ^ 1024 - 2 ^ 970 \<le> \<bar>v\<bar> then (if 0 < v then PInf else NInf) else Fin v)"

definition parse_StrDecimalLiteral :: "string \<Rightarrow> (jsnum \<times> string) option" where
  "parse_StrDecimalLiteral s =
     (let (neg, r) = take_sign s
      in if prefix ''Infinity'' r then Some (if neg then NInf else PInf, drop 8 r)
         else (case parse_unsigned r of
                 None \<Rightarrow> None
               | Some (v, rest) \<Rightarrow> Some (to_number (if neg then - v else v), rest)))"

text \<open>\<open>0x\<close>, \<open>0o\<close> and \<open>0b\<close> literals (no sign).\<close>

definition non_decimal_literal :: "string \<Rightarrow> nat option" where
  "non_decimal_literal t =
     (case t of
        z # x # ds \<Rightarrow>
          (let radix = (if x = CHR ''x'' \<or> x = CHR ''X'' then 16
                        else if x = CHR ''o'' \<or> x = CHR ''O'' then 8
                        else if x = CHR ''b'' \<or> x = CHR ''B'' then 2 else 0)
           in if z = CHR ''0'' \<and> radix \<noteq> 0 \<and> ds \<noteq> [] \<and> list_all (is_radix_digit radix) ds
              then Some (radix_value radix ds) else None)
      | _ \<Rightarrow> None)"

text \<open>\<open>Number(s)\<close> for a string \<open>s\<close>.\<close>

definition StringToNumber :: "string \<Rightarrow> jsnum" where
  "StringToNumber s =
     (let t = js_trim s
      in if t = [] then Fin 0
         else (case non_decimal_literal t of
                 Some n \<Rightarrow> to_number (real n)
               | None \<Rightarrow>
                   (case parse_StrDecimalLiteral t of
                      Some (v, []) \<Rightarrow> v
                    | _ \<Rightarrow> NaN)))"

definition ToNumber :: "jsval \<Rightarrow> jsnum" where
  "ToNumber v =
     (case v of
        JUndefined \<Rightarrow> NaN
      | JNull \<Rightarrow> Fin 0
      | JBool b \<Rightarrow> Fin (if b then 1 else 0)
      | JNum x \<Rightarrow> x
      | JStr s \<Rightarrow> StringToNumber s)"

text \<open>The global \<open>isFinite(v)\<close> converts its argument first: \<open>isFinite(null)\<close> is
  true.\<close>

definition js_isFinite :: "jsval \<Rightarrow> bool" where
  "js_isFinite v = num_finite (ToNumber v)"

text \<open>\<open>parseFloat(v)\<close> parses the string form of \<open>v\<close>: of a Number, its own value;
  of \<open>undefined\<close>, \<open>null\<close>, \<open>true\<close> and \<open>false\<close>, no number.\<close>

definition parseFloat :: "jsval \<Rightarrow> jsnum" where
  "parseFloat v =
     (case v of
        JStr s \<Rightarrow>
          (case parse_StrDecimalLiteral (dropWhile is_js_space s) of
             None \<Rightarrow> NaN
           | Some (x, rest) \<Rightarrow> x)
      | JNum x \<Rightarrow> x
      | _ \<Rightarrow> NaN)"

subsubsection \<open>Postal codes\<close>

text \<open>
  The field \<open>zip\<close> of a record is missing, \<open>null\<close>, or some other value. The code
  reads a value that is present through two conversions only, \<open>String(zip)\<close> and
  \<open>Number(zip).toFixed(1)\<close>; such a value is given here by the two strings that these
  conversions return for it, so that no rounding or number formatting is left to the
  model. For \<open>undefined\<close> and \<open>null\<close> the two conversions give the strings below.
\<close>

datatype zipval = ZipUndefined | ZipNull | ZipValue string string

definition zip_present :: "zipval \<Rightarrow> bool" where
  "zip_present z = (z \<noteq> ZipUndefined \<and> z \<noteq> ZipNull)"

definition zip_String :: "zipval \<Rightarrow> string" where
  "zip_String z =
     (case z of
        ZipUndefined \<Rightarrow> ''undefined''
      | ZipNull \<Rightarrow> ''null''
      | ZipValue str fixed \<Rightarrow> str)"

definition zip_toFixed1 :: "zipval \<Rightarrow> string" where
  "zip_toFixed1 z =
     (case z of
        ZipUndefined \<Rightarrow> ''NaN''
      | ZipNull \<Rightarrow> ''0.0''
      | ZipValue str fixed \<Rightarrow> fixed)"

text \<open>Decimal digits of an integer.\<close>

fun show_nat :: "nat \<Rightarrow> string" where
  "show_nat n =
     (if n < 10 then [''0123456789'' ! n]
      else show_nat (n div 10) @ [''0123456789'' ! (n mod 10)])"

declare show_nat.simps [simp del]

definition show_int :: "int \<Rightarrow> string" where
  "show_int i = (if i < 0 then ''-'' @ show_nat (nat (- i)) else show_nat (nat i))"

text \<open>
  The postal code that is the integer Number \<open>i\<close>. Below \<open>2^53\<close> in magnitude every
  integer is a Number, \<open>String\<close> writes all its digits and \<open>toFixed(1)\<close> writes them
  followed by \<open>.0\<close>; other integers are left out.
\<close>

definition zip_of_int :: "int \<Rightarrow> zipval option" where
  "zip_of_int i =
     (if \<bar>i\<bar> < 2 ^ 53 then Some (ZipValue (show_int i) (show_int i @ ''.0'')) else None)"

subsection \<open>Records, the geocode cache and the state\<close>

text \<open>
  A location record of \<open>dispensary_data.json\<close>, with the fields the modelled code
  reads. Name, address, city and region are strings (so \<open>dispensary.address || ''\<close> is
  the address); the trend label may be missing. The field \<open>zip\<close> is \<open>zip_field\<close>
  here.
\<close>

record dispensary =
  licensee :: string
  address :: string
  city :: string
  region :: string
  latitude :: jsval
  longitude :: jsval
  zip_field :: zipval
  trend_direction :: "string option"

text \<open>An entry of \<open>geocoded_cache.json\<close>. An entry that is \<open>null\<close> or not an object
  reads as one whose \<open>lat\<close> and \<open>lng\<close> are \<open>undefined\<close>: the test of the source
  rejects both.\<close>

record geo_entry =
  lat :: jsval
  lng :: jsval

record app_data =
  locations_data :: "dispensary list option"
  dispensaries :: "dispensary list option"

text \<open>The fields of the object that the modelled methods read or write. The cache is
  the list of its keys and entries in the order of \<open>Object.keys\<close>.\<close>

record territory_map =
  data :: "app_data option"
  filteredData :: "dispensary list"
  geoCache :: "(string \<times> geo_entry) list option"
  geoCacheNorm :: "(string \<rightharpoonup> geo_entry) option"

text \<open>\<open>loadData\<close>, lines 42-52: the cache is stored and the normalized index is built,
  a later key overwriting an earlier one of the same normal form.\<close>

definition build_geoCacheNorm :: "(string \<times> geo_entry) list \<Rightarrow> (string \<rightharpoonup> geo_entry)" where
  "build_geoCacheNorm cache =
     fold (\<lambda>key idx. case map_of cache key of
                        Some entry \<Rightarrow> idx(norm_key key \<mapsto> entry)
                      | None \<Rightarrow> idx)
       (map fst cache) Map.empty"

definition store_geoCache :: "(string \<times> geo_entry) list \<Rightarrow> territory_map \<Rightarrow> territory_map" where
  "store_geoCache cache st =
     st\<lparr>geoCache := Some cache, geoCacheNorm := Some (build_geoCacheNorm cache)\<rparr>"

subsection \<open>Coordinate resolution in updateMap\<close>

text \<open>Lines 271-278: explicit coordinates; \<open>lat\<close> and \<open>lng\<close> start as \<open>null\<close>.\<close>

definition explicit_coords :: "dispensary \<Rightarrow> jsval \<times> jsval" where
  "explicit_coords d =
     (if \<not> nullish (latitude d) \<and> \<not> nullish (longitude d) then
        (let latNum = parseFloat (latitude d); lngNum = parseFloat (longitude d)
         in if num_finite latNum \<and> num_finite lngNum then (JNum latNum, JNum lngNum)
            else (JNull, JNull))
      else (JNull, JNull))"

text \<open>Lines 282-296: the candidate keys.\<close>

definition candidates :: "dispensary \<Rightarrow> string list" where
  "candidates d =
     (let addr = js_trim (address d); cty = js_trim (city d); z = zip_field d
      in if addr \<noteq> [] \<and> cty \<noteq> [] then
           [addr @ '', '' @ cty] @
           (if zip_present z then
              (let zipStr = zip_String z
               in [addr @ '', '' @ cty @ '' '' @ zipStr] @
                  (if \<not> js_includes zipStr ''.''
                   then [addr @ '', '' @ cty @ '' '' @ zip_toFixed1 z]
                   else []))
            else [])
         else [])"

text \<open>The two loops over the candidates (lines 299-306 and 313-321): the first key
  whose entry passes \<open>isFinite\<close> on both fields sets \<open>lat\<close> and \<open>lng\<close> and ends the
  loop; with no such key they keep their values.\<close>

definition entry_hit :: "geo_entry \<Rightarrow> bool" where
  "entry_hit hit = (js_isFinite (lat hit) \<and> js_isFinite (lng hit))"

fun first_hit :: "(string \<rightharpoonup> geo_entry) \<Rightarrow> string list \<Rightarrow> jsval \<times> jsval \<Rightarrow> jsval \<times> jsval" where
  "first_hit table [] ll = ll"
| "first_hit table (key # keys) ll =
     (case table key of
        None \<Rightarrow> first_hit table keys ll
      | Some hit \<Rightarrow> if entry_hit hit then (lat hit, lng hit) else first_hit table keys ll)"

text \<open>Lines 281-323.\<close>

definition cache_coords :: "territory_map \<Rightarrow> dispensary \<Rightarrow> jsval \<times> jsval \<Rightarrow> jsval \<times> jsval" where
  "cache_coords st d ll =
     (case geoCache st of
        None \<Rightarrow> ll
      | Some cache \<Rightarrow>
          if nullish (fst ll) \<or> nullish (snd ll) then
            (let cands = candidates d;
                 ll1 = first_hit (map_of cache) cands ll
             in case geoCacheNorm st of
                  None \<Rightarrow> ll1
                | Some idx \<Rightarrow>
                    if (nullish (fst ll1) \<or> nullish (snd ll1)) \<and> cands \<noteq> []
                    then first_hit idx (map norm_key cands) ll1
                    else ll1)
          else ll)"

text \<open>\<open>getCityCoordinates\<close> (lines 431-529).\<close>

definition getCityCoordinates :: "(string \<times> real \<times> real) list" where
  "getCityCoordinates =
     [(''Albuquerque'', 35.0844, - 106.6504),
      (''Albquerque'', 35.0844, - 106.6504),
      (''Santa Fe'', 35.6870, - 105.9378),
      (''Las Cruces'', 32.3199, - 106.7637),
      (''Roswell'', 33.3943, - 104.5230),
      (''Farmington'', 36.7281, - 108.2187),
      (''Clovis'', 34.4048, - 103.2052),
      (''Hobbs'', 32.7426, - 103.1372),
      (''Alamogordo'', 32.8995, - 105.9603),
      (''Carlsbad'', 32.4207, - 104.2288),
      (''Gallup'', 35.5281, - 108.7426),
      (''Las Vegas'', 35.5939, - 105.2230),
      (''Silver City'', 32.7701, - 108.2803),
      (''Los Alamos'', 35.8781, - 106.2978),
      (''Taos'', 36.4073, - 105.5731),
      (''Espanola'', 35.9911, - 106.0803),
      (''Rio Rancho'', 35.2328, - 106.6630),
      (''Deming'', 32.2687, - 107.7586),
      (''Grants'', 35.1473, - 107.8548),
      (''Socorro'', 34.0582, - 106.8906),
      (''Portales'', 34.1862, - 103.3538),
      (''Tucumcari'', 35.1717, - 103.7250),
      (''Truth or Consequences'', 33.1284, - 107.2528),
      (''Ruidoso'', 33.3317, - 105.6731),
      (''Artesia'', 32.8426, - 104.4028),
      (''Lovington'', 32.9445, - 103.3488),
      (''Belen'', 34.6620, - 106.7764),
      (''Los Lunas'', 34.8064, - 106.7331),
      (''Bernalillo'', 35.3103, - 106.5517),
      (''Corrales'', 35.2317, - 106.6142),
      (''Edgewood'', 35.0654, - 106.1964),
      (''Chaparral'', 31.9135, - 106.3839),
      (''Sunland Park'', 31.7951, - 106.5806),
      (''Anthony'', 31.9979, - 106.6011),
      (''Mesilla'', 32.2723, - 106.8006),
      (''Mesilla Park'', 32.2840, - 106.7614),
      (''Jal'', 32.1126, - 103.1921),
      (''Eunice'', 32.4390, - 103.1549),
      (''Clayton'', 36.4556, - 103.1893),
      (''Raton'', 36.9042, - 104.4394),
      (''Angel Fire'', 36.4067, - 105.2897),
      (''Red River'', 36.7053, - 105.4072),
      (''Questa'', 36.7067, - 105.5942),
      (''Chama'', 36.9030, - 106.5814),
      (''Aztec'', 36.8381, - 108.0009),
      (''Bloomfield'', 36.7072, - 107.9848),
      (''Kirtland'', 36.7381, - 108.3148),
      (''Cuba'', 36.0311, - 107.0936),
      (''Milan'', 35.1750, - 107.8889),
      (''White Rock'', 35.8314, - 106.2083),
      (''Alcalde'', 36.0886, - 106.0536),
      (''El Prado'', 36.4406, - 105.5689),
      (''Taos Ski Valley'', 36.5928, - 105.4467),
      (''Picuris Pueblo'', 36.1892, - 105.7578),
      (''Placitas'', 35.3314, - 106.5633),
      (''Los Ranchos'', 35.1417, - 106.6472),
      (''Bosque Farms'', 34.8589, - 106.7103),
      (''Peralta'', 34.8203, - 106.6931),
      (''Rio Communities'', 34.6531, - 106.7483),
      (''Cedar Crest'', 35.1364, - 106.3661),
      (''Moriarty'', 35.0047, - 106.0489),
      (''Estancia'', 34.7592, - 106.0517),
      (''Madrid'', 35.2644, - 106.1500),
      (''Pena Blanca'', 35.5653, - 106.3361),
      (''San Ysidro'', 35.5214, - 106.7789),
      (''Jemez Springs'', 35.7739, - 106.6917),
      (''Santa Rosa'', 34.9381, - 104.6836),
      (''Fort Sumner'', 34.4725, - 104.2436),
      (''Logan'', 35.3586, - 103.4189),
      (''Vaughn'', 34.5931, - 105.1703),
      (''Santa Teresa'', 31.7901, - 106.7019),
      (''Vado'', 32.1162, - 106.6603),
      (''Hatch'', 32.6612, - 107.1531),
      (''Arrey'', 32.8292, - 107.2758),
      (''Elephant Butte'', 33.1470, - 107.1858),
      (''Bayard'', 32.7898, - 108.1311),
      (''San Lorenzo'', 32.8631, - 108.1300),
      (''Columbus'', 31.8281, - 107.6411),
      (''Lordsburg'', 32.3506, - 108.7114),
      (''Tularosa'', 33.0742, - 105.9547),
      (''Cloudcroft'', 32.9595, - 105.7408),
      (''Ruidoso Downs'', 33.3206, - 105.6086),
      (''Carrizozo'', 33.6431, - 105.8769),
      (''Capitan'', 33.5453, - 105.5850),
      (''Alto'', 33.3658, - 105.6836),
      (''Loving'', 32.2890, - 103.9311),
      (''Tatum'', 33.2531, - 103.3155),
      (''Texico'', 34.3925, - 103.0497),
      (''Glenrio'', 35.1856, - 103.0419),
      (''Rodeo'', 31.8356, - 109.0311),
      (''Timberon'', 32.6281, - 105.6969),
      (''Yah Ta Hey'', 35.6508, - 108.7881),
      (''Mora'', 36.0047, - 105.3281),
      (''Eagle Nest'', 36.5394, - 105.2708)]"

text \<open>The table is an object literal: a name that it does not hold but
  \<open>Object.prototype\<close> does reads as an inherited function or object, which is truthy and
  whose elements 0 and 1 are \<open>undefined\<close>.\<close>

definition object_prototype_keys :: "string list" where
  "object_prototype_keys =
     [''constructor'', ''toString'', ''toLocaleString'', ''valueOf'', ''hasOwnProperty'',
      ''isPrototypeOf'', ''propertyIsEnumerable'', ''__proto__'', ''__defineGetter__'',
      ''__defineSetter__'', ''__lookupGetter__'', ''__lookupSetter__'']"

text \<open>The outcome for one record: the position handed to \<open>L.circleMarker\<close> (line 353), or
  the early return of line 331.\<close>

datatype position = Marker jsval jsval | NoCoords

text \<open>Lines 326-336.\<close>

definition centroid_position :: "(string \<times> real \<times> real) list \<Rightarrow> dispensary \<Rightarrow> position" where
  "centroid_position cityCoords d =
     (case map_of cityCoords (city d) of
        Some (clat, clng) \<Rightarrow>
          (let jitter = getStableJitter (address d @ ''|'' @ licensee d) (Fin 0.004)
           in Marker (JNum (js_add (Fin clat) (fst jitter)))
                     (JNum (js_add (Fin clng) (snd jitter))))
      | None \<Rightarrow>
          if city d \<in> set object_prototype_keys then Marker (JNum NaN) (JNum NaN)
          else NoCoords)"

text \<open>Lines 267-336 for one record, with the centroid table as an argument.\<close>

definition resolve_position ::
  "territory_map \<Rightarrow> (string \<times> real \<times> real) list \<Rightarrow> dispensary \<Rightarrow> position" where
  "resolve_position st cityCoords d =
     (let ll = cache_coords st d (explicit_coords d)
      in if nullish (fst ll) \<or> nullish (snd ll) then centroid_position cityCoords d
         else Marker (fst ll) (snd ll))"

definition marker_position :: "territory_map \<Rightarrow> dispensary \<Rightarrow> position" where
  "marker_position st d = resolve_position st getCityCoordinates d"

subsection \<open>Trend buckets and statistics\<close>

text \<open>\<open>baseTrend\<close> (lines 171-177); a missing label and the empty string are falsy.\<close>

definition baseTrend :: "string option \<Rightarrow> string" where
  "baseTrend trend =
     (case trend of
        None \<Rightarrow> ''stable''
      | Some s \<Rightarrow>
          if s = [] then ''stable''
          else (let t = toLowerCase s
                in if js_includes t ''up'' then ''up''
                   else if js_includes t ''down'' then ''down''
                   else ''stable''))"

record trend_stats =
  up :: nat
  down :: nat
  stable' :: nat

text \<open>\<open>stats[key]++\<close> on the object \<open>{ up: 0, down: 0, stable: 0 }\<close> (the counter
  \<open>stable\<close> is the field \<open>stable'\<close>); any other key would not touch the three
  counters.\<close>

definition increment :: "string \<Rightarrow> trend_stats \<Rightarrow> trend_stats" where
  "increment key s =
     (if key = ''up'' then s\<lparr>up := up s + 1\<rparr>
      else if key = ''down'' then s\<lparr>down := down s + 1\<rparr>
      else if key = ''stable'' then s\<lparr>stable' := stable' s + 1\<rparr>
      else s)"

text \<open>\<open>calculateStats\<close> (lines 221-228).\<close>

definition calculateStats :: "dispensary list \<Rightarrow> trend_stats" where
  "calculateStats ds =
     fold (\<lambda>d s. increment (baseTrend (trend_direction d)) s) ds
       \<lparr>up = 0, down = 0, stable' = 0\<rparr>"

subsection \<open>The filters\<close>

text \<open>
  What \<open>applyFilters\<close> reads from the page: the values of the search box and of the two
  selects, and the active trend button, if any, with its \<open>data-trend\<close> attribute, if
  any.
\<close>

datatype trend_button = NoActiveButton | ActiveButton "string option"

record filter_controls =
  search_value :: string
  region_value :: string
  city_value :: string
  trend_control :: trend_button

datatype js_error = TypeError

text \<open>Line 135; with neither array the spread of line 136 throws.\<close>

definition source_of :: "app_data \<Rightarrow> dispensary list option" where
  "source_of dat =
     (case locations_data dat of Some xs \<Rightarrow> Some xs | None \<Rightarrow> dispensaries dat)"

text \<open>\<open>applyFilters\<close> (lines 132-169), up to the redraw of \<open>updateDisplay\<close>.\<close>

definition applyFilters :: "filter_controls \<Rightarrow> territory_map \<Rightarrow> js_error + territory_map" where
  "applyFilters ui st =
     (case data st of
        None \<Rightarrow> Inr st
      | Some dat \<Rightarrow>
          (case source_of dat of
             None \<Rightarrow> Inl TypeError
           | Some source \<Rightarrow>
               (let searchTerm = toLowerCase (search_value ui);
                    filtered1 =
                      (if searchTerm \<noteq> [] then
                         filter (\<lambda>d. js_includes (toLowerCase (licensee d)) searchTerm \<or>
                                     js_includes (toLowerCase (address d)) searchTerm \<or>
                                     js_includes (toLowerCase (city d)) searchTerm) source
                       else source);
                    selectedRegion = region_value ui;
                    filtered2 =
                      (if selectedRegion \<noteq> [] then
                         filter (\<lambda>d. region d = selectedRegion) filtered1
                       else filtered1);
                    selectedCity = city_value ui;
                    filtered3 =
                      (if selectedCity \<noteq> [] then
                         filter (\<lambda>d. city d = selectedCity) filtered2
                       else filtered2);
                    trendFilter =
                      (case trend_control ui of
                         NoActiveButton \<Rightarrow> Some ''all''
                       | ActiveButton t \<Rightarrow> t);
                    filtered4 =
                      (if trendFilter \<noteq> Some ''all'' then
                         filter (\<lambda>d. Some (baseTrend (trend_direction d)) = trendFilter) filtered3
                       else filtered3)
                in Inr (st\<lparr>filteredData := filtered4\<rparr>))))"

text \<open>The filter as section 4.5 of the specification words it: a record is kept when it
  satisfies every active predicate.\<close>

definition search_matches :: "string \<Rightarrow> dispensary \<Rightarrow> bool" where
  "search_matches term d =
     (sublist (toLowerCase term) (toLowerCase (licensee d)) \<or>
      sublist (toLowerCase term) (toLowerCase (address d)) \<or>
      sublist (toLowerCase term) (toLowerCase (city d)))"

definition trend_matches :: "trend_button \<Rightarrow> dispensary \<Rightarrow> bool" where
  "trend_matches b d =
     (case b of
        NoActiveButton \<Rightarrow> True
      | ActiveButton None \<Rightarrow> False
      | ActiveButton (Some t) \<Rightarrow> t = ''all'' \<or> baseTrend (trend_direction d) = t)"

definition passes :: "filter_controls \<Rightarrow> dispensary \<Rightarrow> bool" where
  "passes ui d =
     ((search_value ui = [] \<or> search_matches (search_value ui) d) \<and>
      (region_value ui = [] \<or> region d = region_value ui) \<and>
      (city_value ui = [] \<or> city d = city_value ui) \<and>
      trend_matches (trend_control ui) d)"

subsection \<open>The sparkline\<close>

text \<open>
  A point of \<open>monthly_data\<close>: the month key and the sales figure may be missing
  (\<open>undefined\<close> or \<open>null\<close>), and an element of the array may itself be \<open>null\<close>. The
  sales figure, when present, is a Number. \<open>sort\<close> is stable. The comparison
  \<open>a.month.localeCompare(b.month)\<close> depends on the locale in general; it is modelled
  by the order of the code units, with which it agrees on keys made of digits and
  hyphens, such as the zero-padded keys \<open>YYYY-MM\<close> of the data. What is proved about
  the order of the values is stated for such keys (\<open>months_ok\<close>).
\<close>

record monthly_point =
  month :: "string option"
  total_sales :: "jsnum option"



text \<open>The first filter of line 551, as the month and the sales of the points it keeps.\<close>

definition usable_points :: "monthly_point option list \<Rightarrow> (string \<times> jsnum) list" where
  "usable_points monthlyData =
     List.map_filter
       (\<lambda>p. case p of
              None \<Rightarrow> None
            | Some d \<Rightarrow>
                (case (month d, total_sales d) of
                   (Some m, Some v) \<Rightarrow> if m \<noteq> [] then Some (m, v) else None
                 | _ \<Rightarrow> None))
       monthlyData"

text \<open>Lines 550-553: \<open>sortedData\<close> and \<open>values\<close>.\<close>

definition sortedData :: "monthly_point option list \<Rightarrow> (string \<times> jsnum) list" where
  "sortedData monthlyData = sort_key fst (usable_points monthlyData)"

definition plot_values :: "monthly_point option list \<Rightarrow> jsnum list" where
  "plot_values monthlyData =
     filter (\<lambda>v. \<not> js_isNaN v \<and> js_ge v (Fin 0)) (map snd (sortedData monthlyData))"

definition js_min2 :: "jsnum \<Rightarrow> jsnum \<Rightarrow> jsnum" where
  "js_min2 a b = (if a = NaN \<or> b = NaN then NaN else if js_less b a then b else a)"

definition js_max2 :: "jsnum \<Rightarrow> jsnum \<Rightarrow> jsnum" where
  "js_max2 a b = (if a = NaN \<or> b = NaN then NaN else if js_less a b then b else a)"

definition Math_min :: "jsnum list \<Rightarrow> jsnum" where
  "Math_min vs = fold (\<lambda>v acc. js_min2 acc v) vs PInf"

definition Math_max :: "jsnum list \<Rightarrow> jsnum" where
  "Math_max vs = fold (\<lambda>v acc. js_max2 acc v) vs NInf"

text \<open>What the function does to the 2D context, in order.\<close>

datatype canvas_op =
    ClearRect real real real real
  | FillStyle string
  | StrokeStyle string
  | LineWidth real
  | BeginPath
  | Arc jsnum jsnum real real real
  | MoveTo jsnum jsnum
  | LineTo jsnum jsnum
  | Fill
  | Stroke

text \<open>The element of the popup: missing, without a 2D context, or ready.\<close>

datatype canvas = NoCanvas | NoContext | Context2d

definition canvas_width :: real where "canvas_width = 100"
definition canvas_height :: real where "canvas_height = 40"
definition padding :: real where "padding = 5"

text \<open>Line 602.\<close>

definition plot_y :: "jsnum \<Rightarrow> jsnum \<Rightarrow> jsnum \<Rightarrow> jsnum" where
  "plot_y v minValue valueRange =
     (let drawHeight = canvas_height - padding * 2
      in js_add (Fin padding)
           (js_sub (Fin drawHeight)
              (js_mul (js_div (js_sub v minValue) valueRange) (Fin drawHeight))))"

text \<open>Lines 581-628: the line through all values and the two end dots.\<close>

definition draw_line :: "jsnum list \<Rightarrow> jsnum \<Rightarrow> jsnum \<Rightarrow> canvas_op list" where
  "draw_line vs minValue valueRange =
     (let firstValue = vs ! 0;
          lastValue = vs ! (length vs - 1);
          colour = (if js_less firstValue lastValue then ''#10b981''
                    else if js_less lastValue firstValue then ''#ef4444''
                    else ''#f59e0b'');
          drawWidth = canvas_width - padding * 2;
          x = (\<lambda>i. Fin (padding + real i / real (length vs - 1) * drawWidth))
      in [StrokeStyle colour, LineWidth 2, BeginPath] @
         map (\<lambda>i. if i = 0 then MoveTo (x i) (plot_y (vs ! i) minValue valueRange)
                   else LineTo (x i) (plot_y (vs ! i) minValue valueRange))
           [0 ..< length vs] @
         [Stroke, FillStyle colour,
          BeginPath, Arc (Fin padding) (plot_y firstValue minValue valueRange) 2 0 (2 * pi), Fill,
          BeginPath, Arc (Fin (padding + drawWidth)) (plot_y lastValue minValue valueRange) 2 0 (2 * pi),
          Fill])"

text \<open>\<open>createMiniSparkline\<close> (lines 536-629), for a series that is an array.\<close>

definition createMiniSparkline :: "canvas \<Rightarrow> monthly_point option list \<Rightarrow> canvas_op list" where
  "createMiniSparkline cv monthlyData =
     (case cv of
        NoCanvas \<Rightarrow> []
      | NoContext \<Rightarrow> []
      | Context2d \<Rightarrow>
          ClearRect 0 0 100 40 #
          (let vs = plot_values monthlyData
           in if length vs < 2 then
                [FillStyle ''#999'', BeginPath,
                 Arc (Fin (canvas_width / 2)) (Fin (canvas_height / 2)) 3 0 (2 * pi), Fill]
              else
                (let minValue = Math_min vs; maxValue = Math_max vs;
                     valueRange = js_sub maxValue minValue
                 in if valueRange = Fin 0 then
                      [StrokeStyle ''#999'', LineWidth 2, BeginPath,
                       MoveTo (Fin 5) (Fin (canvas_height / 2)),
                       LineTo (Fin (canvas_width - 5)) (Fin (canvas_height / 2)), Stroke]
                    else draw_line vs minValue valueRange)))"

text \<open>
  The sparkline as the claims word it, from the series itself. A point is usable when
  it is there, has a non-empty month key and a sales figure that is present, is not NaN
  and is not below zero; \<open>valid_points\<close> are the usable points of the series in its
  own order, each as often as it occurs, and \<open>spec_values\<close> are their sales figures in
  ascending order of the month keys, points with equal keys staying in their order.
\<close>

definition valid_point :: "monthly_point option \<Rightarrow> (string \<times> jsnum) option" where
  "valid_point p =
     (case p of
        None \<Rightarrow> None
      | Some d \<Rightarrow>
          (case month d of
             None \<Rightarrow> None
           | Some m \<Rightarrow>
               (case total_sales d of
                  None \<Rightarrow> None
                | Some v \<Rightarrow>
                    if m \<noteq> [] \<and> v \<noteq> NaN \<and> js_ge v (Fin 0) then Some (m, v) else None)))"

definition valid_points :: "monthly_point option list \<Rightarrow> (string \<times> jsnum) list" where
  "valid_points monthlyData = List.map_filter valid_point monthlyData"

definition spec_values :: "monthly_point option list \<Rightarrow> jsnum list" where
  "spec_values monthlyData = map snd (sort_key fst (valid_points monthlyData))"


subsection \<open>Example data\<close>

text \<open>Three records: with labels \<open>Strong_Up\<close>, \<open>down\<close> and none; without coordinates,
  with a number and a string as coordinates, and with the fields missing. The postal
  codes are the integer 87501, the string \<open>87102\<close> and none.\<close>

definition rec_a :: dispensary where
  "rec_a = \<lparr>licensee = ''Acme Cannabis'', address = ''12 Main St'', city = ''Santa Fe'',
            region = ''North'', latitude = JNull, longitude = JNull,
            zip_field = ZipValue ''87501'' ''87501.0'', trend_direction = Some ''Strong_Up''\<rparr>"

definition rec_b :: dispensary where
  "rec_b = \<lparr>licensee = ''Budding Rose'', address = ''400 Central Ave'', city = ''Albuquerque'',
            region = ''Central'', latitude = JNum (Fin 35.0844), longitude = JStr ''-106.6504'',
            zip_field = ZipValue ''87102'' ''87102.0'', trend_direction = Some ''down''\<rparr>"

definition rec_c :: dispensary where
  "rec_c = \<lparr>licensee = ''High Desert'', address = ''7 Paseo'', city = ''Taos'',
            region = ''North'', latitude = JUndefined, longitude = JUndefined,
            zip_field = ZipUndefined, trend_direction = None\<rparr>"

text \<open>A state with the three records loaded and no cache.\<close>

definition st_plain :: territory_map where
  "st_plain = \<lparr>data = Some \<lparr>locations_data = Some [rec_a, rec_b, rec_c], dispensaries = None\<rparr>,
               filteredData = [], geoCache = None, geoCacheNorm = None\<rparr>"

text \<open>Monthly series. \<open>series_one\<close>: one usable point among a negative figure, a
  \<open>null\<close> element, a point without month and a NaN. \<open>series_flat\<close>: three usable
  points of 500, out of order, among a NaN, a negative figure and a \<open>null\<close> element.
  \<open>series_mixed\<close>: two usable points with different figures among invalid ones.\<close>

definition series_one :: "monthly_point option list" where
  "series_one =
     [Some \<lparr>month = Some ''2025-01'', total_sales = Some (Fin (- 5))\<rparr>,
      None,
      Some \<lparr>month = Some ''2025-03'', total_sales = Some (Fin 500)\<rparr>,
      Some \<lparr>month = None, total_sales = Some (Fin 7)\<rparr>,
      Some \<lparr>month = Some ''2025-02'', total_sales = Some NaN\<rparr>]"

definition series_flat :: "monthly_point option list" where
  "series_flat =
     [Some \<lparr>month = Some ''2025-03'', total_sales = Some (Fin 500)\<rparr>,
      Some \<lparr>month = Some ''2025-04'', total_sales = Some NaN\<rparr>,
      Some \<lparr>month = Some ''2025-01'', total_sales = Some (Fin 500)\<rparr>,
      Some \<lparr>month = Some ''2025-05'', total_sales = Some (Fin (- 3))\<rparr>,
      None,
      Some \<lparr>month = Some ''2025-02'', total_sales = Some (Fin 500)\<rparr>]"

definition series_mixed :: "monthly_point option list" where
  "series_mixed =
     [Some \<lparr>month = Some ''2025-03'', total_sales = Some (Fin 300)\<rparr>,
      Some \<lparr>month = Some ''2025-01'', total_sales = Some (Fin (- 5))\<rparr>,
      None,
      Some \<lparr>month = None, total_sales = Some (Fin 7)\<rparr>,
      Some \<lparr>month = Some ''2025-04'', total_sales = None\<rparr>,
      Some \<lparr>month = Some ''2025-05'', total_sales = Some NaN\<rparr>,
      Some \<lparr>month = Some ''2025-02'', total_sales = Some (Fin 100)\<rparr>]"

subsection \<open>The tiers, as the claims word them\<close>

text \<open>No key of the list has, in the table, an entry that passes the test of the
  loops.\<close>

definition misses :: "(string \<rightharpoonup> geo_entry) \<Rightarrow> string list \<Rightarrow> bool" where
  "misses table keys =
     list_all (\<lambda>key. case table key of None \<Rightarrow> True | Some hit \<Rightarrow> \<not> entry_hit hit) keys"

text \<open>The record has no explicit finite coordinates: its latitude and longitude do not
  both parse to finite numbers.\<close>

definition no_explicit_coords :: "dispensary \<Rightarrow> bool" where
  "no_explicit_coords d =
     (\<not> (num_finite (parseFloat (latitude d)) \<and> num_finite (parseFloat (longitude d))))"

text \<open>No geocode-cache hit: no cache is loaded, or no candidate key hits, neither in the
  cache nor, normalized, in the index.\<close>

definition no_cache_hit :: "territory_map \<Rightarrow> dispensary \<Rightarrow> bool" where
  "no_cache_hit st d =
     (case geoCache st of
        None \<Rightarrow> True
      | Some cache \<Rightarrow>
          misses (map_of cache) (candidates d) \<and>
          (case geoCacheNorm st of
             None \<Rightarrow> True
           | Some idx \<Rightarrow> misses idx (map norm_key (candidates d))))"

text \<open>A state whose cache holds an entry under the first candidate key of \<open>rec_b\<close>.\<close>

definition cache_b :: "(string \<times> geo_entry) list" where
  "cache_b = [(''400 Central Ave, Albuquerque'', \<lparr>lat = JNum (Fin 1), lng = JNum (Fin 2)\<rparr>)]"

definition st_cached :: territory_map where
  "st_cached = store_geoCache cache_b st_plain"








text \<open>Records with the integer postal code 87507: one whose address ends in a space,
  one whose address is a single space, and one with a cache keyed with \<open>87507.0\<close>.\<close>

definition rec_z :: dispensary where
  "rec_z = \<lparr>licensee = ''Acme Cannabis'', address = ''12 Main St '', city = ''Santa Fe'',
            region = ''North'', latitude = JNull, longitude = JNull,
            zip_field = ZipValue ''87507'' ''87507.0'', trend_direction = Some ''up''\<rparr>"

definition rec_blank :: dispensary where
  "rec_blank = \<lparr>licensee = ''Acme Cannabis'', address = '' '', city = ''Santa Fe'',
                region = ''North'', latitude = JNull, longitude = JNull,
                zip_field = ZipValue ''87507'' ''87507.0'', trend_direction = Some ''up''\<rparr>"

definition rec_w :: dispensary where
  "rec_w = \<lparr>licensee = ''Rodeo Wellness'', address = ''2801 Rodeo Rd'', city = ''Santa Fe'',
            region = ''North'', latitude = JNull, longitude = JNull,
            zip_field = ZipValue ''87507'' ''87507.0'', trend_direction = Some ''up''\<rparr>"

definition cache_w :: "(string \<times> geo_entry) list" where
  "cache_w =
     [(''2801 Rodeo Rd, Santa Fe 87507.0'',
       \<lparr>lat = JNum (Fin 35.6412), lng = JNum (Fin (- 105.9903))\<rparr>)]"

definition st_w :: territory_map where
  "st_w = store_geoCache cache_w st_plain"

section \<open>Properties\<close>

subsection \<open>The seeded generator\<close>

lemma word_of_int_hash_step:
  "(word_of_int (hash_step h c) :: 32 word) = fnv_step (word_of_int h) c"
  by (simp add: hash_step_def fnv_step_def js_xor_def js_shl_def Let_def push_bit_eq_mult
      charCodeAt_def of_nat_of_char of_int_of_char mult.commute)

lemma fold_hash_word:
  "(word_of_int (fold (\<lambda>c h. hash_step h c) str h0) :: 32 word)
     = fold (\<lambda>c w. fnv_step w c) str (word_of_int h0)"
  by (induction str arbitrary: h0) (simp_all add: word_of_int_hash_step)

lemma hash_loop_fnv: "ToUint32 (hash_loop str) = uint (fnv_hash str)"
  by (simp add: ToUint32_def hash_loop_def fnv_hash_def fold_hash_word)

lemma seededRandom_fnv: "seededRandom seed = real_of_int (uint (fnv_hash seed)) / 2 ^ 32"
  by (simp only: seededRandom_def hash_loop_fnv) simp

lemma seededRandom_range: "0 \<le> seededRandom seed \<and> seededRandom seed < 1"
proof -
  have "uint (fnv_hash seed) < 4294967296"
    using uint_bounded [of "fnv_hash seed"] by simp
  then have "real_of_int (uint (fnv_hash seed)) < real_of_int 4294967296"
    by (simp only: of_int_less_iff)
  moreover have "0 \<le> real_of_int (uint (fnv_hash seed))"
    by (simp only: of_int_0_le_iff uint_ge_0)
  ultimately show ?thesis
    unfolding seededRandom_def hash_loop_fnv by (simp del: of_int_uint)
qed

lemma getStableJitter_finite:
  "getStableJitter seed (Fin s) =
     (Fin ((seededRandom (seed @ '':lat'') - 1 / 2) * s),
      Fin ((seededRandom (seed @ '':lng'') - 1 / 2) * s))"
  by (simp add: getStableJitter_def js_sub_def Let_def)

lemma jitter_component_bound:
  assumes "0 < s"
  shows "- (s / 2) \<le> (seededRandom seed - 1 / 2) * s \<and> (seededRandom seed - 1 / 2) * s < s / 2"
proof -
  from seededRandom_range [of seed]
  have lo: "- (1 / 2) \<le> seededRandom seed - 1 / 2" and hi: "seededRandom seed - 1 / 2 < 1 / 2"
    by simp_all
  from lo assms have "- (1 / 2) * s \<le> (seededRandom seed - 1 / 2) * s"
    by (intro mult_right_mono) simp_all
  moreover from hi assms have "(seededRandom seed - 1 / 2) * s < 1 / 2 * s"
    by (intro mult_strict_right_mono) simp_all
  ultimately show ?thesis by simp
qed

text \<open>
  C3 (jitter determinism). \<open>seededRandom\<close> and \<open>getStableJitter\<close> read nothing but
  their arguments: equal seeds and scales give equal pairs. The value of
  \<open>seededRandom\<close> is the 32-bit FNV-1a hash of the seed's code units over \<open>2^32\<close>,
  a number in \<open>[0, 1)\<close>, and the pair of \<open>getStableJitter\<close> is built from the hashes
  of \<open>seed + ":lat"\<close> and \<open>seed + ":lng"\<close> alone.
\<close>

theorem jitter_deterministic:
  "(seed = seed' \<and> scale = scale' \<longrightarrow>
      getStableJitter seed scale = getStableJitter seed' scale' \<and>
      seededRandom seed = seededRandom seed')
   \<and> getStableJitter seed scale =
       (js_mul (js_sub (Fin (real_of_int (uint (fnv_hash (seed @ '':lat''))) / 2 ^ 32)) (Fin 0.5)) scale,
        js_mul (js_sub (Fin (real_of_int (uint (fnv_hash (seed @ '':lng''))) / 2 ^ 32)) (Fin 0.5)) scale)
   \<and> seededRandom seed = real_of_int (uint (fnv_hash seed)) / 2 ^ 32
   \<and> 0 \<le> seededRandom seed \<and> seededRandom seed < 1"
  using seededRandom_range [of seed]
  by (simp add: getStableJitter_def Let_def seededRandom_fnv)

lemma fnv_hash_a: "fnv_hash ''a'' = 3826002220"
  by (simp add: fnv_hash_def fnv_step_def)

theorem jitter_deterministic_witness:
  "getStableJitter ''a'' (Fin 0.004) = getStableJitter ''a'' (Fin 0.004)
   \<and> seededRandom ''a'' = 3826002220 / 2 ^ 32
   \<and> 0 \<le> seededRandom ''a'' \<and> seededRandom ''a'' < 1"
  using jitter_deterministic [of "''a''" "''a''" "Fin 0.004" "Fin 0.004"]
  by (simp add: fnv_hash_a)

subsection \<open>Evaluation on concrete inputs\<close>

lemmas str_eval = charCodeAt_def is_js_space_def lower_char_def toLowerCase_def js_trim_def
  norm_key_def char_of_def bit_0

lemma js_includes_sublist: "js_includes hay needle = sublist needle hay"
  by (induction hay) (simp_all add: sublist_Cons_right)

subsection \<open>Trend buckets\<close>

lemma baseTrend_range:
  "baseTrend t = ''up'' \<or> baseTrend t = ''down'' \<or> baseTrend t = ''stable''"
  by (simp add: baseTrend_def Let_def split: option.split)

lemma baseTrend_sublist:
  "baseTrend trend =
     (let t = toLowerCase (case trend of None \<Rightarrow> [] | Some s \<Rightarrow> s)
      in if sublist ''up'' t then ''up'' else if sublist ''down'' t then ''down'' else ''stable'')"
  by (simp add: baseTrend_def Let_def js_includes_sublist toLowerCase_def split: option.split)

lemma baseTrend_labels:
  "baseTrend (Some ''strong_up'') = ''up''"
  "baseTrend (Some ''up'') = ''up''"
  "baseTrend (Some ''strong_down'') = ''down''"
  "baseTrend (Some ''insufficient_data'') = ''stable''"
  "baseTrend None = ''stable''"
  "baseTrend (Some []) = ''stable''"
  by (simp_all add: baseTrend_def str_eval)

lemma increment_fields:
  "up (increment k s) = up s + (if k = ''up'' then 1 else 0)"
  "down (increment k s) = down s + (if k = ''down'' then 1 else 0)"
  "k = ''up'' \<or> k = ''down'' \<or> k = ''stable'' \<Longrightarrow>
     stable' (increment k s) = stable' s + (if k = ''stable'' then 1 else 0)"
  by (auto simp: increment_def)

lemma fold_increment:
  "fold (\<lambda>d s. increment (baseTrend (trend_direction d)) s) ds s0 =
     \<lparr>up = up s0 + length (filter (\<lambda>d. baseTrend (trend_direction d) = ''up'') ds),
      down = down s0 + length (filter (\<lambda>d. baseTrend (trend_direction d) = ''down'') ds),
      stable' = stable' s0 + length (filter (\<lambda>d. baseTrend (trend_direction d) = ''stable'') ds)\<rparr>"
proof (induction ds arbitrary: s0)
  case Nil
  show ?case by simp
next
  case (Cons d ds)
  show ?case
    using baseTrend_range [of "trend_direction d"]
    by (auto simp: Cons.IH increment_fields)
qed

lemma fold_increment_total:
  "up (fold (\<lambda>d s. increment (baseTrend (trend_direction d)) s) ds s0)
   + down (fold (\<lambda>d s. increment (baseTrend (trend_direction d)) s) ds s0)
   + stable' (fold (\<lambda>d s. increment (baseTrend (trend_direction d)) s) ds s0)
   = up s0 + down s0 + stable' s0 + length ds"
proof (induction ds arbitrary: s0)
  case Nil
  show ?case by simp
next
  case (Cons d ds)
  show ?case
    using baseTrend_range [of "trend_direction d"]
    by (auto simp: Cons.IH increment_fields)
qed

text \<open>
  C7 (coarse trend buckets). \<open>baseTrend\<close> gives \<open>up\<close> when the lower-cased label
  contains \<open>up\<close>, otherwise \<open>down\<close> when it contains \<open>down\<close>, otherwise \<open>stable\<close>, a
  missing label counting as the empty one; so \<open>strong_up\<close> and \<open>up\<close> give \<open>up\<close>,
  \<open>strong_down\<close> gives \<open>down\<close>, and \<open>insufficient_data\<close>, a missing and an empty label
  give \<open>stable\<close>. \<open>calculateStats\<close> counts, for each bucket, the records that
  \<open>baseTrend\<close> sends to it.
\<close>

theorem baseTrend_buckets:
  "baseTrend trend =
     (let t = toLowerCase (case trend of None \<Rightarrow> [] | Some s \<Rightarrow> s)
      in if sublist ''up'' t then ''up'' else if sublist ''down'' t then ''down'' else ''stable'')
   \<and> baseTrend (Some ''strong_up'') = ''up''
   \<and> baseTrend (Some ''up'') = ''up''
   \<and> baseTrend (Some ''strong_down'') = ''down''
   \<and> baseTrend (Some ''insufficient_data'') = ''stable''
   \<and> baseTrend None = ''stable''
   \<and> baseTrend (Some []) = ''stable''
   \<and> calculateStats ds =
       \<lparr>up = length (filter (\<lambda>d. baseTrend (trend_direction d) = ''up'') ds),
        down = length (filter (\<lambda>d. baseTrend (trend_direction d) = ''down'') ds),
        stable' = length (filter (\<lambda>d. baseTrend (trend_direction d) = ''stable'') ds)\<rparr>"
  using baseTrend_sublist [of trend]
  by (simp add: baseTrend_labels calculateStats_def fold_increment)

text \<open>Three records for the examples: labels \<open>Strong_Up\<close>, \<open>down\<close> and none.\<close>

lemma baseTrend_examples:
  "baseTrend (trend_direction rec_a) = ''up''"
  "baseTrend (trend_direction rec_b) = ''down''"
  "baseTrend (trend_direction rec_c) = ''stable''"
  by (simp_all add: rec_a_def rec_b_def rec_c_def baseTrend_def str_eval)

theorem baseTrend_buckets_witness:
  "baseTrend (Some ''Strong_Up'') = ''up''
   \<and> calculateStats [rec_a, rec_b, rec_c, rec_a] = \<lparr>up = 2, down = 1, stable' = 1\<rparr>"
  using baseTrend_buckets [of "Some ''Strong_Up''" "[rec_a, rec_b, rec_c, rec_a]"]
  by (simp add: baseTrend_examples str_eval Let_def sublist_code)

text \<open>
  C9 (the counts partition the list). The three counters of \<open>calculateStats\<close> add up to
  the number of records, since \<open>baseTrend\<close> sends every label, missing, empty or
  unknown, to one of the three buckets.
\<close>

theorem calculateStats_partition:
  "up (calculateStats ds) + down (calculateStats ds) + stable' (calculateStats ds) = length ds
   \<and> baseTrend t \<in> {''up'', ''down'', ''stable''}"
  using baseTrend_range [of t] fold_increment_total [of ds "\<lparr>up = 0, down = 0, stable' = 0\<rparr>"]
  by (auto simp: calculateStats_def)

theorem calculateStats_partition_witness:
  "up (calculateStats [rec_a, rec_b, rec_c]) + down (calculateStats [rec_a, rec_b, rec_c])
     + stable' (calculateStats [rec_a, rec_b, rec_c]) = 3
   \<and> baseTrend (Some ''n/a'') = ''stable''"
  using calculateStats_partition [of "[rec_a, rec_b, rec_c]" "Some ''n/a''"]
  by (simp add: baseTrend_def str_eval)

subsection \<open>The filters\<close>

lemma applyFilters_passes:
  assumes "data st = Some dat" and "source_of dat = Some source"
  shows "applyFilters ui st = Inr (st\<lparr>filteredData := filter (passes ui) source\<rparr>)"
proof -
  have lower_nil: "\<And>s. (toLowerCase s = []) = (s = [])"
    by (simp add: toLowerCase_def)
  have tm: "\<And>d. trend_matches (trend_control ui) d =
      ((case trend_control ui of NoActiveButton \<Rightarrow> Some ''all'' | ActiveButton t \<Rightarrow> t) = Some ''all'' \<or>
       Some (baseTrend (trend_direction d)) =
         (case trend_control ui of NoActiveButton \<Rightarrow> Some ''all'' | ActiveButton t \<Rightarrow> t))"
    by (auto simp: trend_matches_def split: trend_button.splits option.splits)
  have "filter (passes ui) source =
      filter (\<lambda>d. trend_matches (trend_control ui) d)
        (filter (\<lambda>d. city_value ui = [] \<or> city d = city_value ui)
          (filter (\<lambda>d. region_value ui = [] \<or> region d = region_value ui)
            (filter (\<lambda>d. search_value ui = [] \<or> search_matches (search_value ui) d) source)))"
    by (auto simp: passes_def intro!: filter_cong)
  then show ?thesis
    using assms
    by (simp add: applyFilters_def Let_def lower_nil tm search_matches_def js_includes_sublist)
qed

lemma passes_region_trend:
  "passes \<lparr>search_value = [], region_value = r, city_value = [], trend_control = tc\<rparr> =
     (\<lambda>d. (r = [] \<or> region d = r) \<and> trend_matches tc d)"
  by (rule ext) (simp add: passes_def)

lemma trend_matches_inactive:
  "trend_matches NoActiveButton d" "trend_matches (ActiveButton (Some ''all'')) d"
  by (simp_all add: trend_matches_def)

text \<open>
  C6 (filter composition). With the data loaded, \<open>applyFilters\<close> stores exactly the
  records of the source, in its order, that pass every active predicate: the lower-cased
  search term is a substring of the lower-cased name, address or city; the region is the
  selected one; the city is the selected one; the bucket of \<open>baseTrend\<close> is the active
  trend. The region and the trend filter together keep the records that each of them
  keeps alone, and with every control inactive the source is stored as it is.
\<close>

theorem applyFilters_composition:
  assumes "data st = Some dat" and "source_of dat = Some source"
  shows "applyFilters ui st = Inr (st\<lparr>filteredData := filter (passes ui) source\<rparr>)
    \<and> (let R = filter (\<lambda>d. r = [] \<or> region d = r) source;
            T = filter (trend_matches tc) source
        in applyFilters \<lparr>search_value = [], region_value = r, city_value = [],
                          trend_control = NoActiveButton\<rparr> st = Inr (st\<lparr>filteredData := R\<rparr>)
         \<and> applyFilters \<lparr>search_value = [], region_value = [], city_value = [],
                          trend_control = tc\<rparr> st = Inr (st\<lparr>filteredData := T\<rparr>)
         \<and> applyFilters \<lparr>search_value = [], region_value = r, city_value = [],
                          trend_control = tc\<rparr> st
             = Inr (st\<lparr>filteredData := filter (\<lambda>d. d \<in> set R \<and> d \<in> set T) source\<rparr>)
         \<and> set (filter (\<lambda>d. d \<in> set R \<and> d \<in> set T) source) = set R \<inter> set T)
    \<and> applyFilters \<lparr>search_value = [], region_value = [], city_value = [],
                      trend_control = NoActiveButton\<rparr> st = Inr (st\<lparr>filteredData := source\<rparr>)
    \<and> applyFilters \<lparr>search_value = [], region_value = [], city_value = [],
                      trend_control = ActiveButton (Some ''all'')\<rparr> st
        = Inr (st\<lparr>filteredData := source\<rparr>)"
proof -
  have both: "filter (\<lambda>d. (r = [] \<or> region d = r) \<and> trend_matches tc d) source =
      filter (\<lambda>d. d \<in> set (filter (\<lambda>d. r = [] \<or> region d = r) source) \<and>
                    d \<in> set (filter (trend_matches tc) source)) source"
    by (rule filter_cong) auto
  show ?thesis
    unfolding applyFilters_passes [OF assms] passes_region_trend Let_def
    using both by (auto simp: trend_matches_inactive)
qed

lemma passes_examples:
  "passes \<lparr>search_value = ''SANTA'', region_value = ''North'', city_value = [],
           trend_control = ActiveButton (Some ''up'')\<rparr> rec_a"
  "\<not> passes \<lparr>search_value = ''SANTA'', region_value = ''North'', city_value = [],
           trend_control = ActiveButton (Some ''up'')\<rparr> rec_b"
  "\<not> passes \<lparr>search_value = ''SANTA'', region_value = ''North'', city_value = [],
           trend_control = ActiveButton (Some ''up'')\<rparr> rec_c"
  by (simp_all add: passes_def search_matches_def trend_matches_def baseTrend_def
      rec_a_def rec_b_def rec_c_def str_eval sublist_code)

theorem applyFilters_composition_witness:
  "applyFilters \<lparr>search_value = ''SANTA'', region_value = ''North'', city_value = [],
                 trend_control = ActiveButton (Some ''up'')\<rparr> st_plain
     = Inr (st_plain\<lparr>filteredData := [rec_a]\<rparr>)
   \<and> applyFilters \<lparr>search_value = [], region_value = [], city_value = [],
                 trend_control = NoActiveButton\<rparr> st_plain
     = Inr (st_plain\<lparr>filteredData := [rec_a, rec_b, rec_c]\<rparr>)"
proof -
  have d: "data st_plain = Some \<lparr>locations_data = Some [rec_a, rec_b, rec_c], dispensaries = None\<rparr>"
    by (simp add: st_plain_def)
  have s: "source_of \<lparr>locations_data = Some [rec_a, rec_b, rec_c], dispensaries = None\<rparr>
             = Some [rec_a, rec_b, rec_c]"
    by (simp add: source_of_def)
  show ?thesis
    using applyFilters_composition [OF d s,
        of "\<lparr>search_value = ''SANTA'', region_value = ''North'', city_value = [],
             trend_control = ActiveButton (Some ''up'')\<rparr>" "''North''" "ActiveButton (Some ''up'')"]
    by (simp add: passes_examples)
qed

subsection \<open>The sparkline\<close>

lemma filter_usable_points:
  "filter (\<lambda>p. \<not> js_isNaN (snd p) \<and> js_ge (snd p) (Fin 0)) (usable_points md) = valid_points md"
  by (induction md)
     (auto simp: usable_points_def valid_points_def valid_point_def List.map_filter_simps
        js_isNaN_def split: option.splits)

text \<open>The two filters and the sort of the source give the sorted usable points.\<close>

lemma plot_values_spec: "plot_values md = spec_values md"
proof -
  have "plot_values md =
      map snd (filter ((\<lambda>v. \<not> js_isNaN v \<and> js_ge v (Fin 0)) \<circ> snd) (sort_key fst (usable_points md)))"
    by (simp add: plot_values_def sortedData_def filter_map)
  also have "\<dots> = map snd (sort_key fst
      (filter (\<lambda>p. \<not> js_isNaN (snd p) \<and> js_ge (snd p) (Fin 0)) (usable_points md)))"
    by (simp add: filter_sort comp_def)
  finally show ?thesis
    by (simp add: filter_usable_points spec_values_def)
qed

lemma mset_plot_values: "mset (plot_values md) = mset (map snd (valid_points md))"
  by (simp add: plot_values_spec spec_values_def)


lemma length_plot_values: "length (plot_values md) = length (valid_points md)"
  by (simp add: plot_values_spec spec_values_def)

lemma js_max2_commute: "js_max2 (js_max2 a x) y = js_max2 (js_max2 a y) x"
  by (cases a; cases x; cases y) (auto simp: js_max2_def)

lemma js_min2_commute: "js_min2 (js_min2 a x) y = js_min2 (js_min2 a y) x"
  by (cases a; cases x; cases y) (auto simp: js_min2_def)

lemma Math_max_mset: "mset xs = mset ys \<Longrightarrow> Math_max xs = Math_max ys"
  unfolding Math_max_def
  by (rule arg_cong [where f = "\<lambda>f. f NInf"], rule fold_multiset_equiv)
     (auto simp: fun_eq_iff js_max2_commute)

lemma Math_min_mset: "mset xs = mset ys \<Longrightarrow> Math_min xs = Math_min ys"
  unfolding Math_min_def
  by (rule arg_cong [where f = "\<lambda>f. f PInf"], rule fold_multiset_equiv)
     (auto simp: fun_eq_iff js_min2_commute)

lemma range_plot_values:
  "js_sub (Math_max (plot_values md)) (Math_min (plot_values md)) =
   js_sub (Math_max (map snd (valid_points md))) (Math_min (map snd (valid_points md)))"
  using Math_max_mset [OF mset_plot_values] Math_min_mset [OF mset_plot_values] by simp

lemma range_zero_iff: "(js_sub a b = Fin 0) = (a = b \<and> num_finite a)"
  by (cases a; cases b) (simp_all add: js_sub_def num_finite_def)

lemma fold_max_const:
  assumes "\<forall>v \<in> set vs. v = Fin c" and "acc = NInf \<or> acc = Fin c" and "vs \<noteq> []"
  shows "fold (\<lambda>v acc. js_max2 acc v) vs acc = Fin c"
  using assms
proof (induction vs arbitrary: acc)
  case Nil
  then show ?case by simp
next
  case (Cons v vs)
  have step: "js_max2 acc v = Fin c"
    using Cons.prems by (auto simp: js_max2_def)
  show ?case
  proof (cases vs)
    case Nil
    then show ?thesis using step by simp
  next
    case (Cons w ws)
    then show ?thesis
      using Cons.IH [of "js_max2 acc v"] Cons.prems step by simp
  qed
qed

lemma fold_min_const:
  assumes "\<forall>v \<in> set vs. v = Fin c" and "acc = PInf \<or> acc = Fin c" and "vs \<noteq> []"
  shows "fold (\<lambda>v acc. js_min2 acc v) vs acc = Fin c"
  using assms
proof (induction vs arbitrary: acc)
  case Nil
  then show ?case by simp
next
  case (Cons v vs)
  have step: "js_min2 acc v = Fin c"
    using Cons.prems by (auto simp: js_min2_def)
  show ?case
  proof (cases vs)
    case Nil
    then show ?thesis using step by simp
  next
    case (Cons w ws)
    then show ?thesis
      using Cons.IH [of "js_min2 acc v"] Cons.prems step by simp
  qed
qed

lemma range_constant:
  assumes "\<forall>v \<in> set vs. v = Fin c" and "vs \<noteq> []"
  shows "js_sub (Math_max vs) (Math_min vs) = Fin 0"
  using fold_max_const [OF assms(1) _ assms(2), of NInf]
    fold_min_const [OF assms(1) _ assms(2), of PInf]
  by (simp add: Math_max_def Math_min_def js_sub_def)

lemma sparkline_dot:
  assumes "length (valid_points md) < 2"
  shows "createMiniSparkline Context2d md =
     [ClearRect 0 0 100 40, FillStyle ''#999'', BeginPath,
      Arc (Fin (canvas_width / 2)) (Fin (canvas_height / 2)) 3 0 (2 * pi), Fill]"
  using assms by (simp add: createMiniSparkline_def length_plot_values)

lemma sparkline_flat:
  assumes "2 \<le> length (valid_points md)"
      and "js_sub (Math_max (map snd (valid_points md))) (Math_min (map snd (valid_points md)))
             = Fin 0"
  shows "createMiniSparkline Context2d md =
     [ClearRect 0 0 100 40, StrokeStyle ''#999'', LineWidth 2, BeginPath,
      MoveTo (Fin padding) (Fin (canvas_height / 2)),
      LineTo (Fin (canvas_width - padding)) (Fin (canvas_height / 2)), Stroke]"
  using assms
  by (simp add: createMiniSparkline_def Let_def padding_def length_plot_values range_plot_values)

lemma sparkline_constant:
  assumes "2 \<le> length (valid_points md)" and "\<forall>p \<in> set (valid_points md). snd p = Fin c"
  shows "createMiniSparkline Context2d md =
     [ClearRect 0 0 100 40, StrokeStyle ''#999'', LineWidth 2, BeginPath,
      MoveTo (Fin padding) (Fin (canvas_height / 2)),
      LineTo (Fin (canvas_width - padding)) (Fin (canvas_height / 2)), Stroke]"
proof -
  have "map snd (valid_points md) \<noteq> []"
    using assms(1) by auto
  moreover have "\<forall>v \<in> set (map snd (valid_points md)). v = Fin c"
    using assms(2) by auto
  ultimately show ?thesis
    using sparkline_flat [OF assms(1)] range_constant by blast
qed

lemmas series_eval = valid_points_def valid_point_def List.map_filter_simps js_ge_def

lemma valid_points_examples:
  "valid_points [] = []"
  "valid_points series_one = [(''2025-03'', Fin 500)]"
  "valid_points series_flat =
     [(''2025-03'', Fin 500), (''2025-01'', Fin 500), (''2025-02'', Fin 500)]"
  "valid_points series_mixed = [(''2025-03'', Fin 300), (''2025-02'', Fin 100)]"
  by (simp_all add: series_one_def series_flat_def series_mixed_def series_eval)

text \<open>
  C8 (degenerate sparklines). With the canvas and its context present. Drop from the
  series every point that is \<open>null\<close>, has no month key, has no sales figure, or has a
  figure that is NaN or below zero. When fewer than two points remain (the empty series
  included) \<open>createMiniSparkline\<close> clears the canvas and draws one dot of radius 3 at
  \<open>(width / 2, height / 2)\<close>. When at least two remain and the range of their figures,
  maximum minus minimum, is zero, it draws one segment from \<open>(padding, height / 2)\<close> to
  \<open>(width - padding, height / 2)\<close>; so it does for a series whose remaining figures are
  all the same finite number. The range is zero exactly when maximum and minimum are the
  same finite number.
\<close>

theorem sparkline_degenerate:
  "(length (valid_points md) < 2 \<longrightarrow>
      createMiniSparkline Context2d md =
        [ClearRect 0 0 100 40, FillStyle ''#999'', BeginPath,
         Arc (Fin (canvas_width / 2)) (Fin (canvas_height / 2)) 3 0 (2 * pi), Fill])
   \<and> (2 \<le> length (valid_points md) \<and>
       js_sub (Math_max (map snd (valid_points md))) (Math_min (map snd (valid_points md)))
         = Fin 0 \<longrightarrow>
      createMiniSparkline Context2d md =
        [ClearRect 0 0 100 40, StrokeStyle ''#999'', LineWidth 2, BeginPath,
         MoveTo (Fin padding) (Fin (canvas_height / 2)),
         LineTo (Fin (canvas_width - padding)) (Fin (canvas_height / 2)), Stroke])
   \<and> (2 \<le> length (valid_points md) \<and> (\<forall>p \<in> set (valid_points md). snd p = Fin c) \<longrightarrow>
      createMiniSparkline Context2d md =
        [ClearRect 0 0 100 40, StrokeStyle ''#999'', LineWidth 2, BeginPath,
         MoveTo (Fin padding) (Fin (canvas_height / 2)),
         LineTo (Fin (canvas_width - padding)) (Fin (canvas_height / 2)), Stroke])
   \<and> (js_sub (Math_max (map snd (valid_points md))) (Math_min (map snd (valid_points md)))
         = Fin 0) =
       (Math_max (map snd (valid_points md)) = Math_min (map snd (valid_points md)) \<and>
        num_finite (Math_max (map snd (valid_points md))))
   \<and> length (valid_points []) < 2"
  using sparkline_dot [of md] sparkline_flat [of md] sparkline_constant [of md c]
  by (auto simp: range_zero_iff valid_points_examples)

theorem sparkline_degenerate_witness:
  "createMiniSparkline Context2d series_one =
     [ClearRect 0 0 100 40, FillStyle ''#999'', BeginPath, Arc (Fin 50) (Fin 20) 3 0 (2 * pi), Fill]
   \<and> createMiniSparkline Context2d [] =
     [ClearRect 0 0 100 40, FillStyle ''#999'', BeginPath, Arc (Fin 50) (Fin 20) 3 0 (2 * pi), Fill]
   \<and> createMiniSparkline Context2d series_flat =
     [ClearRect 0 0 100 40, StrokeStyle ''#999'', LineWidth 2, BeginPath,
      MoveTo (Fin 5) (Fin 20), LineTo (Fin 95) (Fin 20), Stroke]
   \<and> length series_one = 5 \<and> length (valid_points series_one) = 1
   \<and> length series_flat = 6 \<and> length (valid_points series_flat) = 3"
  using sparkline_degenerate [of series_one] sparkline_degenerate [of "[]"]
    sparkline_degenerate [of series_flat 500]
  by (simp add: valid_points_examples canvas_width_def canvas_height_def padding_def)
     (simp add: series_one_def series_flat_def)











subsection \<open>Coordinate resolution\<close>

lemmas num_eval = digit_of_def is_radix_digit_def radix_value_def is_digit_def take_sign_def
  parse_exponent_def pow10_def parse_unsigned_def to_number_def parse_StrDecimalLiteral_def
  non_decimal_literal_def StringToNumber_def ToNumber_def js_isFinite_def parseFloat_def
  num_finite_def Let_def

lemmas zip_eval = zip_present_def zip_String_def zip_toFixed1_def

lemmas tier_eval = candidates_def misses_def entry_hit_def no_explicit_coords_def
  no_cache_hit_def store_geoCache_def build_geoCacheNorm_def nullish_def Let_def

lemma first_hit_misses: "misses table keys \<Longrightarrow> first_hit table keys ll = ll"
  by (induction keys) (auto simp: misses_def split: option.splits)

lemma first_hit_found:
  assumes "misses table before" and "table key = Some hit" and "entry_hit hit"
  shows "first_hit table (before @ key # after) ll = (lat hit, lng hit)"
  using assms by (induction before) (auto simp: misses_def split: option.splits)

lemma parseFloat_nullish: "nullish v \<Longrightarrow> parseFloat v = NaN"
  by (auto simp: nullish_def parseFloat_def)

lemma explicit_coords_finite:
  assumes "parseFloat (latitude d) = Fin a" and "parseFloat (longitude d) = Fin b"
  shows "explicit_coords d = (JNum (Fin a), JNum (Fin b))"
proof -
  have "\<not> nullish (latitude d)" "\<not> nullish (longitude d)"
    using assms parseFloat_nullish by fastforce+
  then show ?thesis
    using assms by (simp add: explicit_coords_def num_finite_def)
qed

lemma explicit_coords_none:
  assumes "no_explicit_coords d"
  shows "explicit_coords d = (JNull, JNull)"
  using assms by (auto simp: explicit_coords_def no_explicit_coords_def Let_def)

lemma cache_coords_keeps:
  assumes "\<not> nullish (fst ll)" and "\<not> nullish (snd ll)"
  shows "cache_coords st d ll = ll"
  using assms by (simp add: cache_coords_def split: option.split)

lemma cache_coords_no_hit:
  assumes "no_cache_hit st d"
  shows "cache_coords st d ll = ll"
  using assms
  by (auto simp: cache_coords_def no_cache_hit_def Let_def first_hit_misses split: option.splits)

lemma jitter_abs_bound:
  assumes "0 < s"
  shows "\<bar>(seededRandom seed - 1 / 2) * s\<bar> \<le> s / 2"
  using jitter_component_bound [OF assms, of seed] by (simp add: abs_le_iff) linarith

text \<open>
  C1 (tier priority). When the latitude and the longitude of a record both parse to
  finite numbers, the position of its marker is exactly the two parsed numbers, whatever
  the geocode cache, the normalized index and the centroid table hold.
\<close>

theorem explicit_coordinates_win:
  assumes "parseFloat (latitude d) = Fin a" and "parseFloat (longitude d) = Fin b"
  shows "resolve_position st cityCoords d = Marker (JNum (Fin a)) (JNum (Fin b))
       \<and> marker_position st d = Marker (JNum (Fin a)) (JNum (Fin b))"
proof -
  have "cache_coords st d (explicit_coords d) = (JNum (Fin a), JNum (Fin b))"
    unfolding explicit_coords_finite [OF assms]
    by (rule cache_coords_keeps) (simp_all add: nullish_def)
  then show ?thesis
    by (simp add: resolve_position_def marker_position_def nullish_def)
qed

lemma rec_b_parse:
  "parseFloat (latitude rec_b) = Fin 35.0844"
  "parseFloat (longitude rec_b) = Fin (- 106.6504)"
  by (simp_all add: rec_b_def str_eval num_eval)

lemma rec_b_cached:
  "geoCache st_cached = Some cache_b"
  "map_of cache_b (hd (candidates rec_b)) = Some \<lparr>lat = JNum (Fin 1), lng = JNum (Fin 2)\<rparr>"
  by (simp_all add: st_cached_def cache_b_def rec_b_def tier_eval str_eval)

theorem explicit_coordinates_win_witness:
  "marker_position st_cached rec_b = Marker (JNum (Fin 35.0844)) (JNum (Fin (- 106.6504)))
   \<and> resolve_position st_plain [] rec_b = Marker (JNum (Fin 35.0844)) (JNum (Fin (- 106.6504)))
   \<and> map_of cache_b (hd (candidates rec_b)) = Some \<lparr>lat = JNum (Fin 1), lng = JNum (Fin 2)\<rparr>"
  using explicit_coordinates_win [OF rec_b_parse, of st_cached]
    explicit_coordinates_win [OF rec_b_parse, of st_plain "[]"]
  by (simp add: rec_b_cached)

text \<open>
  C2 (centroid fallback with bounded jitter). For a record without explicit finite
  coordinates and without a cache hit whose city is a key of the centroid table, the
  position of the marker is the centroid plus the jitter of the seed
  \<open>address|licensee\<close> at scale 0.004: each component is the centroid's plus
  \<open>(r - 1/2) * 0.004\<close> with \<open>r\<close> the seeded value of the seed with \<open>:lat\<close> or
  \<open>:lng\<close> appended, and so less than 0.004 away from the centroid's. Resolving the
  record again gives the same point, also after the data or the filtered list have
  changed. (Numbers are exact here: the rounding of the additions and multiplications is
  not part of the model.)
\<close>

theorem centroid_fallback:
  assumes "no_explicit_coords d" and "no_cache_hit st d"
      and "map_of getCityCoordinates (city d) = Some (clat, clng)"
  shows "(let seed = address d @ ''|'' @ licensee d;
              dx = (seededRandom (seed @ '':lat'') - 1 / 2) * 0.004;
              dy = (seededRandom (seed @ '':lng'') - 1 / 2) * 0.004
          in getStableJitter seed (Fin 0.004) = (Fin dx, Fin dy)
           \<and> marker_position st d = Marker (JNum (Fin (clat + dx))) (JNum (Fin (clng + dy)))
           \<and> \<bar>(clat + dx) - clat\<bar> < 0.004 \<and> \<bar>(clng + dy) - clng\<bar> < 0.004)
       \<and> marker_position (st\<lparr>data := dat', filteredData := shown'\<rparr>) d = marker_position st d"
proof -
  have ll: "cache_coords st d (explicit_coords d) = (JNull, JNull)"
    by (simp add: explicit_coords_none [OF assms(1)] cache_coords_no_hit [OF assms(2)])
  have b1: "\<bar>(seededRandom (address d @ ''|'' @ licensee d @ '':lat'') - 1 / 2) * 0.004\<bar> < 0.004"
    using jitter_abs_bound [of "0.004" "address d @ ''|'' @ licensee d @ '':lat''"] by simp
  have b2: "\<bar>(seededRandom (address d @ ''|'' @ licensee d @ '':lng'') - 1 / 2) * 0.004\<bar> < 0.004"
    using jitter_abs_bound [of "0.004" "address d @ ''|'' @ licensee d @ '':lng''"] by simp
  have same: "marker_position (st\<lparr>data := dat', filteredData := shown'\<rparr>) d = marker_position st d"
    by (simp add: marker_position_def resolve_position_def cache_coords_def split: option.split)
  show ?thesis
    using assms(3) b1 b2
    by (simp add: same)
       (simp add: marker_position_def resolve_position_def ll nullish_def centroid_position_def
        getStableJitter_finite Let_def)
qed

lemma rec_a_candidates:
  "candidates rec_a =
     [''12 Main St, Santa Fe'', ''12 Main St, Santa Fe 87501'', ''12 Main St, Santa Fe 87501.0'']"
  by (simp add: rec_a_def candidates_def str_eval zip_eval)

lemma rec_a_no_coords: "no_explicit_coords rec_a"
  by (simp add: rec_a_def no_explicit_coords_def num_eval)

lemma rec_a_no_hit: "no_cache_hit st_cached rec_a"
  by (simp add: no_cache_hit_def rec_a_candidates st_cached_def cache_b_def st_plain_def
      store_geoCache_def build_geoCacheNorm_def misses_def str_eval)

lemma santa_fe_centroid:
  "map_of getCityCoordinates (city rec_a) = Some (35.6870, - 105.9378)"
  by (simp add: rec_a_def getCityCoordinates_def)

lemma rec_a_hashes:
  "fnv_hash ''12 Main St|Acme Cannabis:lat'' = 3720167844"
  "fnv_hash ''12 Main St|Acme Cannabis:lng'' = 3233469798"
  by (simp_all add: fnv_hash_def fnv_step_def)

theorem centroid_fallback_witness:
  "marker_position st_cached rec_a =
     Marker (JNum (Fin (9580049289321 / 268435456000)))
            (JNum (Fin (- (284371901540993 / 2684354560000))))
   \<and> \<bar>9580049289321 / 268435456000 - 35.6870\<bar> < (0.004 :: real)
   \<and> \<bar>- (284371901540993 / 2684354560000) - (- 105.9378)\<bar> < (0.004 :: real)"
  using centroid_fallback [OF rec_a_no_coords rec_a_no_hit santa_fe_centroid]
  by (simp add: Let_def rec_a_def seededRandom_fnv rec_a_hashes)

subsection \<open>The order of the cache lookups\<close>




lemma entry_hit_finite:
  "lat hit = JNum (Fin x) \<Longrightarrow> lng hit = JNum (Fin y) \<Longrightarrow> entry_hit hit"
  by (simp add: entry_hit_def js_isFinite_def ToNumber_def num_finite_def)

text \<open>An entry whose \<open>lat\<close> is \<open>null\<close> passes the test of the loops.\<close>

lemma entry_hit_null: "entry_hit \<lparr>lat = JNull, lng = JNum (Fin y)\<rparr>"
  by (simp add: entry_hit_def js_isFinite_def ToNumber_def num_finite_def)

text \<open>The exact lookups come first: an exact hit decides, whatever the index holds.\<close>

lemma exact_hit_first:
  assumes "no_explicit_coords d" and "geoCache st = Some cache"
      and "candidates d = before @ key # after"
      and "misses (map_of cache) before" and "map_of cache key = Some hit"
      and "lat hit = JNum (Fin x)" and "lng hit = JNum (Fin y)"
  shows "resolve_position st cityCoords d = Marker (JNum (Fin x)) (JNum (Fin y))"
proof -
  have "first_hit (map_of cache) (candidates d) (JNull, JNull) = (JNum (Fin x), JNum (Fin y))"
    unfolding assms(3)
    using first_hit_found [OF assms(4,5) entry_hit_finite [OF assms(6,7)]] assms(6,7) by simp
  then have "cache_coords st d (explicit_coords d) = (JNum (Fin x), JNum (Fin y))"
    using assms(2)
    by (simp add: cache_coords_def explicit_coords_none [OF assms(1)] nullish_def Let_def
        split: option.split)
  then show ?thesis
    by (simp add: resolve_position_def nullish_def)
qed








subsection \<open>The candidate keys\<close>

lemma js_includes_single: "js_includes s [c] = (c \<in> set s)"
  by (induction s) auto

lemma show_nat_digits: "set (show_nat n) \<subseteq> set ''0123456789''"
proof (induction n rule: show_nat.induct)
  case (1 n)
  have d: "\<And>k. k < 10 \<Longrightarrow> ''0123456789'' ! k \<in> set ''0123456789''"
    by (rule nth_mem) simp
  show ?case
  proof (cases "n < 10")
    case True
    then show ?thesis
      using d [of n] by (subst show_nat.simps) simp
  next
    case False
    then show ?thesis
      using "1.IH" d [of "n mod 10"] by (subst show_nat.simps) simp
  qed
qed

lemma show_int_no_dot: "\<not> js_includes (show_int i) ''.''"
proof -
  have "CHR ''.'' \<notin> set ''0123456789''" by simp
  then have "\<And>n. CHR ''.'' \<notin> set (show_nat n)"
    using show_nat_digits by blast
  then show ?thesis
    by (simp add: js_includes_single show_int_def)
qed

lemma candidates_three:
  assumes "js_trim (address d) \<noteq> []" and "js_trim (city d) \<noteq> []"
      and "zip_present (zip_field d)" and "\<not> js_includes (zip_String (zip_field d)) ''.''"
  shows "candidates d =
     [js_trim (address d) @ '', '' @ js_trim (city d),
      js_trim (address d) @ '', '' @ js_trim (city d) @ '' '' @ zip_String (zip_field d),
      js_trim (address d) @ '', '' @ js_trim (city d) @ '' '' @ zip_toFixed1 (zip_field d)]"
  using assms by (simp add: candidates_def Let_def)

lemma candidates_int:
  assumes "js_trim (address d) \<noteq> []" and "js_trim (city d) \<noteq> []"
      and "zip_of_int i = Some (zip_field d)"
  shows "candidates d =
     [js_trim (address d) @ '', '' @ js_trim (city d),
      js_trim (address d) @ '', '' @ js_trim (city d) @ '' '' @ show_int i,
      js_trim (address d) @ '', '' @ js_trim (city d) @ '' '' @ show_int i @ ''.0'']"
proof -
  have z: "zip_field d = ZipValue (show_int i) (show_int i @ ''.0'')"
    using assms(3) by (simp add: zip_of_int_def split: if_splits)
  have "zip_present (zip_field d)" "zip_String (zip_field d) = show_int i"
    "zip_toFixed1 (zip_field d) = show_int i @ ''.0''"
    by (simp_all add: z zip_present_def zip_String_def zip_toFixed1_def)
  then show ?thesis
    using candidates_three [OF assms(1,2)] show_int_no_dot [of i] by simp
qed

lemma exact_third_key:
  assumes "js_trim (address d) \<noteq> []" and "js_trim (city d) \<noteq> []"
      and "zip_of_int i = Some (zip_field d)"
      and "no_explicit_coords d" and "geoCache st = Some cache"
      and "misses (map_of cache)
             [js_trim (address d) @ '', '' @ js_trim (city d),
              js_trim (address d) @ '', '' @ js_trim (city d) @ '' '' @ show_int i]"
      and "map_of cache (js_trim (address d) @ '', '' @ js_trim (city d) @ '' '' @ show_int i @ ''.0'')
             = Some hit"
      and "lat hit = JNum (Fin x)" and "lng hit = JNum (Fin y)"
  shows "resolve_position st cityCoords d = Marker (JNum (Fin x)) (JNum (Fin y))"
proof -
  have c: "candidates d =
     [js_trim (address d) @ '', '' @ js_trim (city d),
      js_trim (address d) @ '', '' @ js_trim (city d) @ '' '' @ show_int i] @
     (js_trim (address d) @ '', '' @ js_trim (city d) @ '' '' @ show_int i @ ''.0'') # []"
    using candidates_int [OF assms(1,2,3)] by simp
  show ?thesis
    by (rule exact_hit_first [OF assms(4,5) c assms(6,7,8,9)])
qed

text \<open>
  C5 (postal codes with one decimal), as the code has it. For a record whose trimmed
  address and trimmed city are not empty and whose postal code is an integer of
  magnitude below \<open>2^53\<close>, the candidate keys are exactly three, in this order:
  \<open>addr, city\<close>, then with the digits of the postal code appended after a space, then
  with these digits and \<open>.0\<close> appended after a space, \<open>addr\<close> and \<open>city\<close> being the
  trimmed address and city. Hence, for such a record without explicit finite
  coordinates, a cache entry with finite numbers under the third key gives the position
  of the marker, when the first two keys have no cache entry that passes the test of the
  loop.
\<close>

theorem candidate_keys:
  assumes "js_trim (address d) \<noteq> []" and "js_trim (city d) \<noteq> []"
      and "zip_of_int i = Some (zip_field d)"
  shows "(let a = js_trim (address d) @ '', '' @ js_trim (city d)
          in candidates d = [a, a @ '' '' @ show_int i, a @ '' '' @ show_int i @ ''.0'']
           \<and> (no_explicit_coords d \<and> geoCache st = Some cache \<and>
              misses (map_of cache) [a, a @ '' '' @ show_int i] \<and>
              map_of cache (a @ '' '' @ show_int i @ ''.0'') = Some hit \<and>
              lat hit = JNum (Fin x) \<and> lng hit = JNum (Fin y) \<longrightarrow>
                resolve_position st cityCoords d = Marker (JNum (Fin x)) (JNum (Fin y))))"
  unfolding Let_def
  using candidates_int [OF assms] exact_third_key [OF assms, of st cache hit x y cityCoords]
  by simp

lemma show_int_87507: "show_int 87507 = ''87507''"
  by (simp add: show_int_def show_nat.simps)

lemma rec_w_facts:
  "js_trim (address rec_w) = ''2801 Rodeo Rd''" "js_trim (city rec_w) = ''Santa Fe''"
  "zip_of_int 87507 = Some (zip_field rec_w)" "no_explicit_coords rec_w"
  "geoCache st_w = Some cache_w"
  by (simp_all add: rec_w_def st_w_def store_geoCache_def no_explicit_coords_def str_eval
      num_eval zip_of_int_def show_int_87507)

theorem candidate_keys_witness:
  "candidates rec_w =
     [''2801 Rodeo Rd, Santa Fe'', ''2801 Rodeo Rd, Santa Fe 87507'',
      ''2801 Rodeo Rd, Santa Fe 87507.0'']
   \<and> zip_of_int 87507 = Some (zip_field rec_w)
   \<and> marker_position st_w rec_w = Marker (JNum (Fin 35.6412)) (JNum (Fin (- 105.9903)))"
  using candidate_keys [of rec_w 87507 st_w cache_w
      "\<lparr>lat = JNum (Fin 35.6412), lng = JNum (Fin (- 105.9903))\<rparr>" "35.6412" "- 105.9903"
      getCityCoordinates]
  by (simp add: rec_w_facts show_int_87507 marker_position_def cache_w_def misses_def Let_def)

text \<open>
  The claim as it is worded fails for \<open>rec_z\<close> and for \<open>rec_blank\<close>, whose postal code
  is the integer 87507. Address and city of \<open>rec_z\<close> are not empty, but the address ends
  in a space and no candidate key is \<open>address, city\<close> with the address as the record
  has it. The address of \<open>rec_blank\<close> is one space, which is not empty, and the record
  has no candidate key at all.
\<close>

theorem candidate_keys_counterexample:
  "address rec_z = ''12 Main St '' \<and> city rec_z = ''Santa Fe''
   \<and> zip_of_int 87507 = Some (zip_field rec_z)
   \<and> \<not> js_includes (zip_String (zip_field rec_z)) ''.''
   \<and> candidates rec_z =
       [''12 Main St, Santa Fe'', ''12 Main St, Santa Fe 87507'', ''12 Main St, Santa Fe 87507.0'']
   \<and> address rec_z @ '', '' @ city rec_z \<notin> set (candidates rec_z)
   \<and> address rec_blank \<noteq> [] \<and> city rec_blank \<noteq> []
   \<and> zip_of_int 87507 = Some (zip_field rec_blank)
   \<and> candidates rec_blank = []"
  by (simp add: rec_z_def rec_blank_def candidates_def str_eval zip_eval zip_of_int_def
      show_int_87507)

end
